theory Spec2Isabelle
  imports Complex_Main
begin

section \<open>Data model\<close>

text \<open>
  Identifiers are the store's object ids, numbers of twelve bytes. Where a handler compares
  two stored ids through \<^verbatim>\<open>toString()\<close>, or casts the id of a request before it
  queries, the model compares the ids themselves; where a handler compares a stored id
  with the text of a request (the member routes), the model keeps the text, see
  \<open>oid_toString\<close> and \<open>cast_oid\<close> below. Dates are milliseconds since the epoch. JSON numbers are reals. Record fields
  carry a prefix (\<open>t_\<close> task, \<open>p_\<close> project, \<open>m_\<close> member, \<open>b_\<close> task request
  body, \<open>pb_\<close> project request body) because both schemas have fields of the same name.
\<close>

type_synonym oid = nat
type_synonym date = int

record label =
  l_name :: string
  l_color :: string

record comment =
  c_author :: oid
  c_content :: string
  c_createdAt :: date

text \<open>
  \<^verbatim>\<open>taskSchema\<close> of \<^verbatim>\<open>models/Task.js\<close>. The sub-document lists that no route handler
  writes (watchers, attachments, subtasks, dependencies, timeTracking) and
  \<^verbatim>\<open>actualHours\<close>, \<^verbatim>\<open>archivedAt\<close> are left out.
\<close>

record task =
  t_id :: oid
  t_title :: string
  t_description :: string
  t_status :: string
  t_priority :: string
  t_project :: oid
  t_assignee :: "oid option"
  t_reporter :: oid
  t_labels :: "label list"
  t_dueDate :: "date option"
  t_estimatedHours :: "real option"
  t_progress :: real
  t_comments :: "comment list"
  t_completedAt :: "date option"
  t_isArchived :: bool
  t_createdAt :: date
  t_updatedAt :: date

record member =
  m_user :: oid
  m_role :: string
  m_joinedAt :: date

text \<open>\<^verbatim>\<open>projectSchema\<close> of \<^verbatim>\<open>models/Project.js\<close>, without the fields no handler
  touches (startDate, endDate, budget, settings).\<close>

record project =
  p_id :: oid
  p_name :: string
  p_description :: string
  p_status :: string
  p_priority :: string
  p_deadline :: "date option"
  p_owner :: oid
  p_members :: "member list"
  p_tags :: "string list"
  p_color :: string
  p_progress :: real
  p_isArchived :: bool
  p_createdAt :: date
  p_updatedAt :: date

text \<open>The collections of the document store.\<close>

record user =
  u_id :: oid
  u_firstName :: string
  u_lastName :: string

record store =
  users :: "user list"
  projects :: "project list"
  tasks :: "task list"

text \<open>
  What a handler sends: \<^verbatim>\<open>res.status(c).json(payload)\<close> is \<open>Success c payload\<close>,
  \<^verbatim>\<open>res.status(400).json({ errors: errors.array() })\<close> is \<open>ValidationErrors\<close> with the
  names of the offending fields, and \<^verbatim>\<open>res.status(c).json({ message: m })\<close> on a
  failure path is \<open>Failure c m\<close>.
\<close>

datatype 'a reply = Success nat 'a | ValidationErrors "string list" | Failure nat string

fun http_status :: "'a reply \<Rightarrow> nat" where
  "http_status (Success c _) = c"
| "http_status (ValidationErrors _) = 400"
| "http_status (Failure c _) = c"

text \<open>A date field of a request body: a string that the ISO 8601 check accepts, read as
  the date it denotes, or one that it rejects.\<close>

datatype date_input = IsoDate date | NotIso

text \<open>A request body of the task routes. \<open>None\<close> is an absent (undefined) field.\<close>

record task_body =
  b_title :: "string option"
  b_description :: "string option"
  b_project :: "oid option"
  b_assignee :: "oid option option"
  b_priority :: "string option"
  b_status :: "string option"
  b_dueDate :: "date_input option"
  b_estimatedHours :: "real option"
  b_progress :: "real option"
  b_labels :: "(string \<times> string option) list option"

record project_body =
  pb_name :: "string option"
  pb_description :: "string option"
  pb_deadline :: "date_input option"
  pb_priority :: "string option"
  pb_status :: "string option"
  pb_color :: "string option"
  pb_tags :: "string list option"
  pb_progress :: "real option"

section \<open>Schema validation\<close>

definition is_space :: "char \<Rightarrow> bool" where
  "is_space c = (c \<in> set [CHR '' '', CHR 0x09, CHR 0x0A, CHR 0x0B, CHR 0x0C, CHR 0x0D])"

definition trim :: "string \<Rightarrow> string" where
  "trim s = rev (dropWhile is_space (rev (dropWhile is_space s)))"

definition task_statuses :: "string list" where
  "task_statuses = [''todo'', ''in-progress'', ''review'', ''completed'', ''cancelled'']"

definition project_statuses :: "string list" where
  "project_statuses = [''planning'', ''active'', ''on-hold'', ''completed'', ''cancelled'']"

definition priorities :: "string list" where
  "priorities = [''low'', ''medium'', ''high'', ''urgent'']"

definition member_roles :: "string list" where
  "member_roles = [''owner'', ''admin'', ''member'', ''viewer'']"

definition is_hex :: "char \<Rightarrow> bool" where
  "is_hex c = (c \<in> set ''0123456789abcdefABCDEF'')"

text \<open>The \<^verbatim>\<open>match\<close> validator with the pattern
  \<^verbatim>\<open>/^#([A-Fa-f0-9]{6}|[A-Fa-f0-9]{3})$/\<close>; it lets an empty string pass.\<close>

definition valid_color :: "string \<Rightarrow> bool" where
  "valid_color s = (case s of [] \<Rightarrow> True
     | c # cs \<Rightarrow> c = CHR ''#'' \<and> (length cs = 6 \<or> length cs = 3) \<and> list_all is_hex cs)"

text \<open>
  The validators the task schema declares, run by \<^verbatim>\<open>save()\<close> before the schema's own
  pre-save hook. The result lists the paths that fail; \<^verbatim>\<open>project\<close> and
  \<^verbatim>\<open>reporter\<close> are always present in a \<^typ>\<open>task\<close>.
\<close>

definition validate_task :: "task \<Rightarrow> string list" where
  "validate_task t =
     (if t_title t = [] \<or> 200 < length (t_title t) then [''title''] else []) @
     (if 2000 < length (t_description t) then [''description''] else []) @
     (if t_status t \<in> set task_statuses then [] else [''status'']) @
     (if t_priority t \<in> set priorities then [] else [''priority'']) @
     (if list_all (\<lambda>l. l_name l \<noteq> [] \<and> length (l_name l) \<le> 30 \<and> valid_color (l_color l))
           (t_labels t) then [] else [''labels'']) @
     (case t_estimatedHours t of None \<Rightarrow> []
      | Some h \<Rightarrow> if 0 \<le> h \<and> h \<le> 1000 then [] else [''estimatedHours'']) @
     (if 0 \<le> t_progress t \<and> t_progress t \<le> 100 then [] else [''progress'']) @
     (if list_all (\<lambda>c. c_content c \<noteq> [] \<and> length (c_content c) \<le> 1000) (t_comments t)
      then [] else [''comments''])"

definition validate_project :: "project \<Rightarrow> string list" where
  "validate_project p =
     (if p_name p = [] \<or> 100 < length (p_name p) then [''name''] else []) @
     (if 500 < length (p_description p) then [''description''] else []) @
     (if p_status p \<in> set project_statuses then [] else [''status'']) @
     (if p_priority p \<in> set priorities then [] else [''priority'']) @
     (if list_all (\<lambda>m. m_role m \<in> set member_roles) (p_members p) then [] else [''members'']) @
     (if list_all (\<lambda>t. length t \<le> 30) (p_tags p) then [] else [''tags'']) @
     (if valid_color (p_color p) then [] else [''color'']) @
     (if 0 \<le> p_progress p \<and> p_progress p \<le> 100 then [] else [''progress''])"

section \<open>Documents and the task life cycle\<close>

text \<open>
  A task document in the hands of a handler: the field values, whether the document was
  built by \<^verbatim>\<open>new Task(...)\<close> and not yet saved, and the paths marked modified.
  Assigning a path of a loaded document marks it only when the value changes; every path
  set on a new document is marked.
\<close>

record task_doc =
  d_task :: task
  d_isNew :: bool
  d_modified :: "string list"

definition isModified :: "string \<Rightarrow> task_doc \<Rightarrow> bool" where
  "isModified path d = (path \<in> set (d_modified d))"

definition load :: "task \<Rightarrow> task_doc" where
  "load t = \<lparr>d_task = t, d_isNew = False, d_modified = []\<rparr>"

definition assign :: "string \<Rightarrow> (task \<Rightarrow> task) \<Rightarrow> task_doc \<Rightarrow> task_doc" where
  "assign path f d =
     (let t' = f (d_task d)
      in \<lparr>d_task = t', d_isNew = d_isNew d,
          d_modified = (if d_isNew d \<or> t' \<noteq> d_task d then path # d_modified d
                        else d_modified d)\<rparr>)"

text \<open>The pre-save hook of \<^verbatim>\<open>models/Task.js\<close>: two conditionals, one after the other.\<close>

definition pre_save :: "date \<Rightarrow> task_doc \<Rightarrow> task_doc" where
  "pre_save now d =
     (let d1 = (if isModified ''status'' d \<and> t_status (d_task d) = ''completed''
                   \<and> t_completedAt (d_task d) = None
                then d\<lparr>d_task := (d_task d)\<lparr>t_completedAt := Some now, t_progress := 100\<rparr>\<rparr>
                else d)
      in if isModified ''status'' d1 \<and> t_status (d_task d1) \<noteq> ''completed''
            \<and> t_completedAt (d_task d1) \<noteq> None
         then d1\<lparr>d_task := (d_task d1)\<lparr>t_completedAt := None\<rparr>\<rparr>
         else d1)"

text \<open>The \<^verbatim>\<open>timestamps: true\<close> option: a new document gets both stamps, a modified one
  a new \<^verbatim>\<open>updatedAt\<close>.\<close>

definition timestamps :: "date \<Rightarrow> task_doc \<Rightarrow> task" where
  "timestamps now d =
     (if d_isNew d then (d_task d)\<lparr>t_createdAt := now, t_updatedAt := now\<rparr>
      else if d_modified d \<noteq> [] then (d_task d)\<lparr>t_updatedAt := now\<rparr>
      else d_task d)"

text \<open>
  \<^verbatim>\<open>task.save()\<close>: the schema validators run first and throw a validation error (here
  \<open>Inl\<close> with the failing paths); otherwise the hook runs and the document is what gets
  written.
\<close>

definition save_task :: "date \<Rightarrow> task_doc \<Rightarrow> string list + task" where
  "save_task now d =
     (case validate_task (d_task d) of
        [] \<Rightarrow> Inr (timestamps now (pre_save now d))
      | e # es \<Rightarrow> Inl (e # es))"

section \<open>Store access and authorization\<close>

definition findById_task :: "oid \<Rightarrow> store \<Rightarrow> task option" where
  "findById_task i s = find (\<lambda>t. t_id t = i) (tasks s)"

definition findById_project :: "oid \<Rightarrow> store \<Rightarrow> project option" where
  "findById_project i s = find (\<lambda>p. p_id p = i) (projects s)"

definition write_task :: "task \<Rightarrow> store \<Rightarrow> store" where
  "write_task t s = s\<lparr>tasks := map (\<lambda>x. if t_id x = t_id t then t else x) (tasks s)\<rparr>"

definition insert_task :: "task \<Rightarrow> store \<Rightarrow> store" where
  "insert_task t s = s\<lparr>tasks := tasks s @ [t]\<rparr>"

definition write_project :: "project \<Rightarrow> store \<Rightarrow> store" where
  "write_project p s = s\<lparr>projects := map (\<lambda>x. if p_id x = p_id p then p else x) (projects s)\<rparr>"

definition insert_project :: "project \<Rightarrow> store \<Rightarrow> store" where
  "insert_project p s = s\<lparr>projects := projects s @ [p]\<rparr>"

text \<open>\<^verbatim>\<open>owner === user || members.some(m => m.user === user)\<close>, as every handler spells it.\<close>

definition hasAccess :: "oid \<Rightarrow> project \<Rightarrow> bool" where
  "hasAccess actor p = (p_owner p = actor \<or> list_ex (\<lambda>m. m_user m = actor) (p_members p))"

definition isOwner :: "oid \<Rightarrow> project \<Rightarrow> bool" where
  "isOwner actor p = (p_owner p = actor)"

definition isAdmin :: "oid \<Rightarrow> project \<Rightarrow> bool" where
  "isAdmin actor p = list_ex (\<lambda>m. m_user m = actor \<and> m_role m = ''admin'') (p_members p)"

section \<open>Task routes\<close>

text \<open>The checks of the request validator chains: \<^verbatim>\<open>optional()\<close> skips an absent field.\<close>

definition check_isIn :: "string \<Rightarrow> string list \<Rightarrow> string option \<Rightarrow> string list" where
  "check_isIn field allowed v =
     (case v of None \<Rightarrow> [] | Some x \<Rightarrow> if x \<in> set allowed then [] else [field])"

definition check_date :: "string \<Rightarrow> date_input option \<Rightarrow> string list" where
  "check_date field v = (case v of Some NotIso \<Rightarrow> [field] | _ \<Rightarrow> [])"

definition date_of :: "date_input \<Rightarrow> date option" where
  "date_of v = (case v of IsoDate d \<Rightarrow> Some d | NotIso \<Rightarrow> None)"

text \<open>\<^verbatim>\<open>x || dflt\<close> on an optional string: absent and empty both give the default.\<close>

definition or_default :: "string option \<Rightarrow> string \<Rightarrow> string" where
  "or_default v dflt = (case v of None \<Rightarrow> dflt | Some x \<Rightarrow> if x = [] then dflt else x)"

definition put_task_errors :: "task_body \<Rightarrow> string list" where
  "put_task_errors b =
     (case b_title b of None \<Rightarrow> [] | Some x \<Rightarrow> if x = [] then [''title''] else []) @
     check_isIn ''priority'' priorities (b_priority b) @
     check_isIn ''status'' task_statuses (b_status b) @
     check_date ''dueDate'' (b_dueDate b)"

definition post_task_errors :: "task_body \<Rightarrow> string list" where
  "post_task_errors b =
     (case b_title b of None \<Rightarrow> [''title''] | Some x \<Rightarrow> if x = [] then [''title''] else []) @
     (case b_project b of None \<Rightarrow> [''project''] | Some _ \<Rightarrow> []) @
     check_isIn ''priority'' priorities (b_priority b) @
     check_isIn ''status'' task_statuses (b_status b) @
     check_date ''dueDate'' (b_dueDate b)"

definition mk_label :: "string \<times> string option \<Rightarrow> label" where
  "mk_label nc = \<lparr>l_name = trim (fst nc),
                  l_color = (case snd nc of None \<Rightarrow> ''#757575'' | Some c \<Rightarrow> c)\<rparr>"

definition opt_assign :: "'a option \<Rightarrow> ('a \<Rightarrow> task_doc \<Rightarrow> task_doc) \<Rightarrow> task_doc \<Rightarrow> task_doc" where
  "opt_assign v f d = (case v of None \<Rightarrow> d | Some x \<Rightarrow> f x d)"

text \<open>
  The \<^verbatim>\<open>updateFields.forEach\<close> loop of \<^verbatim>\<open>PUT /:id\<close>, in the order of the array:
  each field of the body that is not undefined is assigned to the document.
\<close>

definition apply_update :: "task_body \<Rightarrow> task_doc \<Rightarrow> task_doc" where
  "apply_update b d0 =
     (let d1 = opt_assign (b_title b) (\<lambda>v. assign ''title'' (\<lambda>t. t\<lparr>t_title := trim v\<rparr>)) d0;
          d2 = opt_assign (b_description b)
                 (\<lambda>v. assign ''description'' (\<lambda>t. t\<lparr>t_description := trim v\<rparr>)) d1;
          d3 = opt_assign (b_assignee b) (\<lambda>v. assign ''assignee'' (\<lambda>t. t\<lparr>t_assignee := v\<rparr>)) d2;
          d4 = opt_assign (b_priority b) (\<lambda>v. assign ''priority'' (\<lambda>t. t\<lparr>t_priority := v\<rparr>)) d3;
          d5 = opt_assign (b_status b) (\<lambda>v. assign ''status'' (\<lambda>t. t\<lparr>t_status := v\<rparr>)) d4;
          d6 = opt_assign (b_dueDate b)
                 (\<lambda>v. assign ''dueDate'' (\<lambda>t. t\<lparr>t_dueDate := date_of v\<rparr>)) d5;
          d7 = opt_assign (b_estimatedHours b)
                 (\<lambda>v. assign ''estimatedHours'' (\<lambda>t. t\<lparr>t_estimatedHours := Some v\<rparr>)) d6;
          d8 = opt_assign (b_progress b) (\<lambda>v. assign ''progress'' (\<lambda>t. t\<lparr>t_progress := v\<rparr>)) d7
      in opt_assign (b_labels b)
           (\<lambda>v. assign ''labels'' (\<lambda>t. t\<lparr>t_labels := map mk_label v\<rparr>)) d8)"

text \<open>
  \<^verbatim>\<open>PUT /api/tasks/:id\<close>. A task whose project no longer exists is populated with
  \<^verbatim>\<open>null\<close>, reading its owner throws, and the \<^verbatim>\<open>catch\<close> answers 500; so does a
  validation error thrown by \<^verbatim>\<open>save()\<close>.
\<close>

definition put_task :: "date \<Rightarrow> oid \<Rightarrow> oid \<Rightarrow> task_body \<Rightarrow> store \<Rightarrow> task reply \<times> store" where
  "put_task now actor tid b s =
     (case put_task_errors b of
        e # es \<Rightarrow> (ValidationErrors (e # es), s)
      | [] \<Rightarrow>
     (case findById_task tid s of
        None \<Rightarrow> (Failure 404 ''Task not found'', s)
      | Some t \<Rightarrow>
     (case findById_project (t_project t) s of
        None \<Rightarrow> (Failure 500 ''Server error'', s)
      | Some p \<Rightarrow>
        if \<not> hasAccess actor p then (Failure 403 ''Access denied'', s)
        else (case save_task now (apply_update b (load t)) of
                Inl _ \<Rightarrow> (Failure 500 ''Server error'', s)
              | Inr t' \<Rightarrow> (Success 200 t', write_task t' s)))))"

text \<open>
  The document \<^verbatim>\<open>POST /api/tasks\<close> builds: \<^verbatim>\<open>new Task({...})\<close> with the defaults of
  the handler (\<^verbatim>\<open>x || dflt\<close>, so that an estimate of 0 becomes null) and of the schema.
\<close>

definition new_task :: "oid \<Rightarrow> oid \<Rightarrow> oid \<Rightarrow> task_body \<Rightarrow> task_doc" where
  "new_task fresh actor proj b =
     \<lparr>d_task = \<lparr>t_id = fresh,
                t_title = trim (or_default (b_title b) []),
                t_description = trim (or_default (b_description b) []),
                t_status = or_default (b_status b) ''todo'',
                t_priority = or_default (b_priority b) ''medium'',
                t_project = proj,
                t_assignee = (case b_assignee b of None \<Rightarrow> None | Some a \<Rightarrow> a),
                t_reporter = actor,
                t_labels = (case b_labels b of None \<Rightarrow> [] | Some ls \<Rightarrow> map mk_label ls),
                t_dueDate = (case b_dueDate b of None \<Rightarrow> None | Some v \<Rightarrow> date_of v),
                t_estimatedHours =
                  (case b_estimatedHours b of None \<Rightarrow> None
                   | Some h \<Rightarrow> if h = 0 then None else Some h),
                t_progress = 0,
                t_comments = [],
                t_completedAt = None,
                t_isArchived = False,
                t_createdAt = 0,
                t_updatedAt = 0\<rparr>,
      d_isNew = True,
      d_modified = [''title'', ''description'', ''project'', ''assignee'', ''reporter'',
                    ''priority'', ''status'', ''dueDate'', ''estimatedHours'', ''labels'']\<rparr>"

definition post_task :: "date \<Rightarrow> oid \<Rightarrow> oid \<Rightarrow> task_body \<Rightarrow> store \<Rightarrow> task reply \<times> store" where
  "post_task now fresh actor b s =
     (case post_task_errors b of
        e # es \<Rightarrow> (ValidationErrors (e # es), s)
      | [] \<Rightarrow>
     (case b_project b of
        None \<Rightarrow> (ValidationErrors [''project''], s)
      | Some proj \<Rightarrow>
     (case findById_project proj s of
        None \<Rightarrow> (Failure 404 ''Project not found'', s)
      | Some p \<Rightarrow>
        if \<not> hasAccess actor p then (Failure 403 ''Access denied to this project'', s)
        else (case save_task now (new_task fresh actor proj b) of
                Inl _ \<Rightarrow> (Failure 500 ''Server error'', s)
              | Inr t \<Rightarrow> (Success 201 t, insert_task t s)))))"

text \<open>\<^verbatim>\<open>DELETE /api/tasks/:id\<close>: the project owner or the task's reporter may delete.\<close>

definition delete_task :: "oid \<Rightarrow> oid \<Rightarrow> store \<Rightarrow> string reply \<times> store" where
  "delete_task actor tid s =
     (case findById_task tid s of
        None \<Rightarrow> (Failure 404 ''Task not found'', s)
      | Some t \<Rightarrow>
     (case findById_project (t_project t) s of
        None \<Rightarrow> (Failure 500 ''Server error'', s)
      | Some p \<Rightarrow>
        if \<not> (p_owner p = actor \<or> t_reporter t = actor) then (Failure 403 ''Access denied'', s)
        else (Success 200 ''Task deleted successfully'',
              s\<lparr>tasks := filter (\<lambda>x. t_id x \<noteq> tid) (tasks s)\<rparr>)))"

text \<open>\<^verbatim>\<open>POST /api/tasks/:id/comments\<close>: the comment is pushed and the task saved.\<close>

definition post_comment :: "date \<Rightarrow> oid \<Rightarrow> oid \<Rightarrow> string option \<Rightarrow> store \<Rightarrow> comment reply \<times> store" where
  "post_comment now actor tid content s =
     (case content of
        None \<Rightarrow> (ValidationErrors [''content''], s)
      | Some txt \<Rightarrow>
        if txt = [] then (ValidationErrors [''content''], s)
        else
     (case findById_task tid s of
        None \<Rightarrow> (Failure 404 ''Task not found'', s)
      | Some t \<Rightarrow>
     (case findById_project (t_project t) s of
        None \<Rightarrow> (Failure 500 ''Server error'', s)
      | Some p \<Rightarrow>
        if \<not> hasAccess actor p then (Failure 403 ''Access denied'', s)
        else (let c = \<lparr>c_author = actor, c_content = trim txt, c_createdAt = now\<rparr>
              in case save_task now
                        (assign ''comments'' (\<lambda>t. t\<lparr>t_comments := t_comments t @ [c]\<rparr>) (load t)) of
                   Inl _ \<Rightarrow> (Failure 500 ''Server error'', s)
                 | Inr t' \<Rightarrow> (Success 201 c, write_task t' s)))))"

text \<open>\<^verbatim>\<open>GET /api/tasks/:id\<close>.\<close>

definition get_task :: "oid \<Rightarrow> oid \<Rightarrow> store \<Rightarrow> task reply" where
  "get_task actor tid s =
     (case findById_task tid s of
        None \<Rightarrow> Failure 404 ''Task not found''
      | Some t \<Rightarrow>
     (case findById_project (t_project t) s of
        None \<Rightarrow> Failure 500 ''Server error''
      | Some p \<Rightarrow>
        if \<not> hasAccess actor p then Failure 403 ''Access denied'' else Success 200 t))"

section \<open>Object ids as text\<close>

text \<open>\<^verbatim>\<open>toString()\<close> of an object id: its 24 hexadecimal digits, in lower case.\<close>

definition hex_char :: "nat \<Rightarrow> char" where
  "hex_char n = ''0123456789abcdef'' ! (n mod 16)"

fun to_hex :: "nat \<Rightarrow> nat \<Rightarrow> string" where
  "to_hex 0 n = []"
| "to_hex (Suc k) n = to_hex k (n div 16) @ [hex_char (n mod 16)]"

definition oid_toString :: "oid \<Rightarrow> string" where
  "oid_toString i = to_hex 24 i"

text \<open>The request check \<^verbatim>\<open>isMongoId()\<close>: 24 hexadecimal digits, of either case.\<close>

definition isMongoId :: "string \<Rightarrow> bool" where
  "isMongoId s = (length s = 24 \<and> list_all is_hex s)"

definition hex_value :: "char \<Rightarrow> nat" where
  "hex_value c =
     (if c \<in> set ''0123456789'' then of_char c - 48
      else if c \<in> set ''abcdef'' then of_char c - 87
      else of_char c - 55)"

text \<open>The cast of such a text to the object id it spells, as the schema does when the
  text is stored in a path of type ObjectId; the case of the digits does not matter.\<close>

definition cast_oid :: "string \<Rightarrow> oid option" where
  "cast_oid s =
     (if isMongoId s then Some (foldl (\<lambda>acc c. 16 * acc + hex_value c) 0 s) else None)"

text \<open>The two comparisons of the member routes between a stored member and the text of
  the request: \<^verbatim>\<open>member.user.toString() === userId\<close> and
  \<^verbatim>\<open>member.user.toString() !== userId\<close>.\<close>

definition same_user :: "string \<Rightarrow> member \<Rightarrow> bool" where
  "same_user userId m = (oid_toString (m_user m) = userId)"

definition other_user :: "string \<Rightarrow> member \<Rightarrow> bool" where
  "other_user userId m = (oid_toString (m_user m) \<noteq> userId)"

section \<open>Project routes\<close>

text \<open>
  The pre-save hook of \<^verbatim>\<open>models/Project.js\<close>: on a new document the owner is pushed
  to the members unless some member already is the owner.
\<close>

definition project_pre_save :: "date \<Rightarrow> bool \<Rightarrow> project \<Rightarrow> project" where
  "project_pre_save now isNew p =
     (if isNew then
        (let ownerExists = list_ex (\<lambda>m. m_user m = p_owner p) (p_members p)
         in if \<not> ownerExists
            then p\<lparr>p_members := p_members p @
                     [\<lparr>m_user = p_owner p, m_role = ''owner'', m_joinedAt = now\<rparr>]\<rparr>
            else p)
      else p)"

text \<open>\<^verbatim>\<open>project.save()\<close>; \<open>old\<close> is the document as it was loaded, \<open>None\<close> for a new one.\<close>

definition save_project :: "date \<Rightarrow> project option \<Rightarrow> project \<Rightarrow> string list + project" where
  "save_project now old p =
     (case validate_project p of
        e # es \<Rightarrow> Inl (e # es)
      | [] \<Rightarrow>
        (let q = project_pre_save now (old = None) p
         in Inr (case old of
                   None \<Rightarrow> q\<lparr>p_createdAt := now, p_updatedAt := now\<rparr>
                 | Some orig \<Rightarrow> if q \<noteq> orig then q\<lparr>p_updatedAt := now\<rparr> else q)))"

definition post_project_errors :: "project_body \<Rightarrow> string list" where
  "post_project_errors b =
     (case pb_name b of None \<Rightarrow> [''name''] | Some x \<Rightarrow> if x = [] then [''name''] else []) @
     check_date ''deadline'' (pb_deadline b) @
     check_isIn ''priority'' priorities (pb_priority b)"

definition new_project :: "oid \<Rightarrow> oid \<Rightarrow> project_body \<Rightarrow> project" where
  "new_project fresh actor b =
     \<lparr>p_id = fresh,
      p_name = trim (or_default (pb_name b) []),
      p_description = trim (or_default (pb_description b) []),
      p_status = ''planning'',
      p_priority = or_default (pb_priority b) ''medium'',
      p_deadline = (case pb_deadline b of None \<Rightarrow> None | Some v \<Rightarrow> date_of v),
      p_owner = actor,
      p_members = [],
      p_tags = (case pb_tags b of None \<Rightarrow> [] | Some ts \<Rightarrow> map trim ts),
      p_color = or_default (pb_color b) ''#2196F3'',
      p_progress = 0,
      p_isArchived = False,
      p_createdAt = 0,
      p_updatedAt = 0\<rparr>"

text \<open>\<^verbatim>\<open>POST /api/projects\<close>.\<close>

definition post_project :: "date \<Rightarrow> oid \<Rightarrow> oid \<Rightarrow> project_body \<Rightarrow> store \<Rightarrow> project reply \<times> store" where
  "post_project now fresh actor b s =
     (case post_project_errors b of
        e # es \<Rightarrow> (ValidationErrors (e # es), s)
      | [] \<Rightarrow>
        (case save_project now None (new_project fresh actor b) of
           Inl _ \<Rightarrow> (Failure 500 ''Server error'', s)
         | Inr p \<Rightarrow> (Success 201 p, insert_project p s)))"

definition put_project_errors :: "project_body \<Rightarrow> string list" where
  "put_project_errors b =
     (case pb_name b of None \<Rightarrow> [] | Some x \<Rightarrow> if x = [] then [''name''] else []) @
     check_date ''deadline'' (pb_deadline b) @
     check_isIn ''priority'' priorities (pb_priority b) @
     check_isIn ''status'' project_statuses (pb_status b)"

definition opt_set :: "'a option \<Rightarrow> ('a \<Rightarrow> project \<Rightarrow> project) \<Rightarrow> project \<Rightarrow> project" where
  "opt_set v f p = (case v of None \<Rightarrow> p | Some x \<Rightarrow> f x p)"

text \<open>The \<^verbatim>\<open>updateFields.forEach\<close> loop of \<^verbatim>\<open>PUT /api/projects/:id\<close>.\<close>

definition apply_project_update :: "project_body \<Rightarrow> project \<Rightarrow> project" where
  "apply_project_update b p0 =
     (let p1 = opt_set (pb_name b) (\<lambda>v p. p\<lparr>p_name := trim v\<rparr>) p0;
          p2 = opt_set (pb_description b) (\<lambda>v p. p\<lparr>p_description := trim v\<rparr>) p1;
          p3 = opt_set (pb_status b) (\<lambda>v p. p\<lparr>p_status := v\<rparr>) p2;
          p4 = opt_set (pb_priority b) (\<lambda>v p. p\<lparr>p_priority := v\<rparr>) p3;
          p5 = opt_set (pb_deadline b) (\<lambda>v p. p\<lparr>p_deadline := date_of v\<rparr>) p4;
          p6 = opt_set (pb_color b) (\<lambda>v p. p\<lparr>p_color := v\<rparr>) p5;
          p7 = opt_set (pb_tags b) (\<lambda>v p. p\<lparr>p_tags := map trim v\<rparr>) p6
      in opt_set (pb_progress b) (\<lambda>v p. p\<lparr>p_progress := v\<rparr>) p7)"

definition put_project :: "date \<Rightarrow> oid \<Rightarrow> oid \<Rightarrow> project_body \<Rightarrow> store \<Rightarrow> project reply \<times> store" where
  "put_project now actor pid b s =
     (case put_project_errors b of
        e # es \<Rightarrow> (ValidationErrors (e # es), s)
      | [] \<Rightarrow>
     (case findById_project pid s of
        None \<Rightarrow> (Failure 404 ''Project not found'', s)
      | Some p \<Rightarrow>
        if \<not> isOwner actor p \<and> \<not> isAdmin actor p then (Failure 403 ''Access denied'', s)
        else (case save_project now (Some p) (apply_project_update b p) of
                Inl _ \<Rightarrow> (Failure 500 ''Server error'', s)
              | Inr p' \<Rightarrow> (Success 200 p', write_project p' s))))"

text \<open>\<^verbatim>\<open>DELETE /api/projects/:id\<close>: \<^verbatim>\<open>Task.deleteMany({ project: id })\<close>, then
  \<^verbatim>\<open>Project.findByIdAndDelete(id)\<close>.\<close>

definition delete_project :: "oid \<Rightarrow> oid \<Rightarrow> store \<Rightarrow> string reply \<times> store" where
  "delete_project actor pid s =
     (case findById_project pid s of
        None \<Rightarrow> (Failure 404 ''Project not found'', s)
      | Some p \<Rightarrow>
        if p_owner p \<noteq> actor
        then (Failure 403 ''Only project owner can delete the project'', s)
        else (let s1 = s\<lparr>tasks := filter (\<lambda>t. t_project t \<noteq> pid) (tasks s)\<rparr>;
                  s2 = s1\<lparr>projects := filter (\<lambda>x. p_id x \<noteq> pid) (projects s1)\<rparr>
              in (Success 200 ''Project and all associated tasks deleted successfully'', s2)))"

text \<open>
  \<^verbatim>\<open>POST /api/projects/:id/members\<close> with the body's \<^verbatim>\<open>userId\<close>, a text, and
  \<^verbatim>\<open>role\<close>. The check for an existing member compares \<^verbatim>\<open>member.user.toString()\<close>
  with that text; the entry pushed holds the text, which the schema casts to an id.
\<close>

definition add_member ::
  "date \<Rightarrow> oid \<Rightarrow> oid \<Rightarrow> string option \<Rightarrow> string option \<Rightarrow> store \<Rightarrow> project reply \<times> store" where
  "add_member now actor pid userId role s =
     (case (case userId of None \<Rightarrow> [''userId'']
            | Some u \<Rightarrow> if isMongoId u then [] else [''userId'']) @
           check_isIn ''role'' [''admin'', ''member'', ''viewer''] role of
        e # es \<Rightarrow> (ValidationErrors (e # es), s)
      | [] \<Rightarrow>
     (case userId of
        None \<Rightarrow> (ValidationErrors [''userId''], s)
      | Some u \<Rightarrow>
     (case findById_project pid s of
        None \<Rightarrow> (Failure 404 ''Project not found'', s)
      | Some p \<Rightarrow>
        if \<not> isOwner actor p \<and> \<not> isAdmin actor p then (Failure 403 ''Access denied'', s)
        else if find (same_user u) (p_members p) \<noteq> None
        then (Failure 400 ''User is already a member of this project'', s)
        else
     (case cast_oid u of
        None \<Rightarrow> (Failure 500 ''Server error'', s)
      | Some uid \<Rightarrow>
        (case save_project now (Some p)
                (p\<lparr>p_members := p_members p @
                     [\<lparr>m_user = uid,
                       m_role = (case role of None \<Rightarrow> ''member'' | Some r \<Rightarrow> r),
                       m_joinedAt = now\<rparr>]\<rparr>) of
           Inl _ \<Rightarrow> (Failure 500 ''Server error'', s)
         | Inr p' \<Rightarrow> (Success 200 p', write_project p' s))))))"

text \<open>
  \<^verbatim>\<open>DELETE /api/projects/:id/members/:userId\<close>. The path parameter is a text that no
  check has looked at; the owner test and the filter compare it with \<^verbatim>\<open>toString()\<close> of
  the stored ids.
\<close>

definition remove_member :: "date \<Rightarrow> oid \<Rightarrow> oid \<Rightarrow> string \<Rightarrow> store \<Rightarrow> string reply \<times> store" where
  "remove_member now actor pid userId s =
     (case findById_project pid s of
        None \<Rightarrow> (Failure 404 ''Project not found'', s)
      | Some p \<Rightarrow>
        if \<not> isOwner actor p \<and> \<not> isAdmin actor p then (Failure 403 ''Access denied'', s)
        else if userId = oid_toString (p_owner p)
        then (Failure 400 ''Cannot remove project owner'', s)
        else (case save_project now (Some p)
                     (p\<lparr>p_members := filter (other_user userId) (p_members p)\<rparr>) of
                Inl _ \<Rightarrow> (Failure 500 ''Server error'', s)
              | Inr p' \<Rightarrow> (Success 200 ''Member removed successfully'', write_project p' s)))"

section \<open>Task listing and dashboard analytics\<close>

text \<open>The projects \<^verbatim>\<open>Project.find({ $or: [{ owner }, { 'members.user' }] })\<close> selects.\<close>

definition accessible_ids :: "oid \<Rightarrow> store \<Rightarrow> oid list" where
  "accessible_ids actor s = map p_id (filter (hasAccess actor) (projects s))"

record task_query =
  q_page :: "int option"
  q_limit :: "int option"
  q_status :: "string option"
  q_priority :: "string option"
  q_project :: "oid option"
  q_assignee :: "oid option"
  q_search :: "string option"

text \<open>The filter object of \<^verbatim>\<open>GET /api/tasks\<close>. Its \<^verbatim>\<open>project\<close> key holds either an id
  or an \<^verbatim>\<open>$in\<close> list; \<open>f_or\<close> is the search pattern of the \<^verbatim>\<open>$or\<close> key.\<close>

datatype project_cond = ProjectIs oid | ProjectIn "oid list"

record task_filter =
  f_isArchived :: bool
  f_status :: "string option"
  f_priority :: "string option"
  f_project :: "project_cond option"
  f_assignee :: "oid option"
  f_or :: "string option"

definition truthy :: "string option \<Rightarrow> string option" where
  "truthy v = (case v of None \<Rightarrow> None | Some x \<Rightarrow> if x = [] then None else Some x)"

text \<open>The filter as the handler builds it, statement by statement; the last assignment
  is \<^verbatim>\<open>filter.project = { $in: projectIds }\<close>.\<close>

definition build_filter :: "task_query \<Rightarrow> oid list \<Rightarrow> task_filter" where
  "build_filter q projectIds =
     (let f0 = \<lparr>f_isArchived = False, f_status = None, f_priority = None, f_project = None,
                f_assignee = None, f_or = None\<rparr>;
          f1 = (case truthy (q_status q) of None \<Rightarrow> f0 | Some v \<Rightarrow> f0\<lparr>f_status := Some v\<rparr>);
          f2 = (case truthy (q_priority q) of None \<Rightarrow> f1 | Some v \<Rightarrow> f1\<lparr>f_priority := Some v\<rparr>);
          f3 = (case q_project q of None \<Rightarrow> f2
                | Some v \<Rightarrow> f2\<lparr>f_project := Some (ProjectIs v)\<rparr>);
          f4 = (case q_assignee q of None \<Rightarrow> f3 | Some v \<Rightarrow> f3\<lparr>f_assignee := Some v\<rparr>);
          f5 = (case truthy (q_search q) of None \<Rightarrow> f4 | Some v \<Rightarrow> f4\<lparr>f_or := Some v\<rparr>)
      in f5\<lparr>f_project := Some (ProjectIn projectIds)\<rparr>)"

text \<open>Whether a task matches the filter. \<open>rx pat txt\<close> is the store's case-insensitive
  regular-expression search of \<open>pat\<close> in \<open>txt\<close>, a parameter of the model.\<close>

definition matches :: "(string \<Rightarrow> string \<Rightarrow> bool) \<Rightarrow> task_filter \<Rightarrow> task \<Rightarrow> bool" where
  "matches rx f t =
     (t_isArchived t = f_isArchived f \<and>
      (case f_status f of None \<Rightarrow> True | Some v \<Rightarrow> t_status t = v) \<and>
      (case f_priority f of None \<Rightarrow> True | Some v \<Rightarrow> t_priority t = v) \<and>
      (case f_project f of None \<Rightarrow> True
       | Some (ProjectIs i) \<Rightarrow> t_project t = i
       | Some (ProjectIn ids) \<Rightarrow> t_project t \<in> set ids) \<and>
      (case f_assignee f of None \<Rightarrow> True | Some v \<Rightarrow> t_assignee t = Some v) \<and>
      (case f_or f of None \<Rightarrow> True | Some pat \<Rightarrow> rx pat (t_title t) \<or> rx pat (t_description t)))"

record pagination =
  pg_current :: nat
  pg_pages :: nat
  pg_total :: nat
  pg_hasNext :: bool
  pg_hasPrev :: bool

definition get_tasks_errors :: "task_query \<Rightarrow> string list" where
  "get_tasks_errors q =
     (case q_page q of None \<Rightarrow> [] | Some n \<Rightarrow> if 1 \<le> n then [] else [''page'']) @
     (case q_limit q of None \<Rightarrow> [] | Some n \<Rightarrow> if 1 \<le> n \<and> n \<le> 100 then [] else [''limit'']) @
     check_isIn ''status'' task_statuses (q_status q) @
     check_isIn ''priority'' priorities (q_priority q)"

definition int_or :: "int option \<Rightarrow> nat \<Rightarrow> nat" where
  "int_or v dflt = (case v of None \<Rightarrow> dflt | Some n \<Rightarrow> if n = 0 then dflt else nat n)"

text \<open>\<^verbatim>\<open>GET /api/tasks\<close>: newest first, then \<^verbatim>\<open>skip\<close> and \<^verbatim>\<open>limit\<close>.\<close>

definition get_tasks ::
  "(string \<Rightarrow> string \<Rightarrow> bool) \<Rightarrow> oid \<Rightarrow> task_query \<Rightarrow> store \<Rightarrow> (task list \<times> pagination) reply" where
  "get_tasks rx actor q s =
     (case get_tasks_errors q of
        e # es \<Rightarrow> ValidationErrors (e # es)
      | [] \<Rightarrow>
        (let page = int_or (q_page q) 1;
             limit = int_or (q_limit q) 10;
             skip = (page - 1) * limit;
             filt = build_filter q (accessible_ids actor s);
             found = filter (matches rx filt) (tasks s);
             total = length found;
             pages = (total + limit - 1) div limit
         in Success 200
              (take limit (drop skip (sort_key (\<lambda>t. - t_createdAt t) found)),
               \<lparr>pg_current = page, pg_pages = pages, pg_total = total,
                pg_hasNext = (page < pages), pg_hasPrev = (1 < page)\<rparr>)))"

text \<open>\<^verbatim>\<open>{ $group: { _id: key, count: { $sum: 1 } } }\<close>: one entry per distinct key.\<close>

definition group_count :: "'k list \<Rightarrow> ('k \<times> nat) list" where
  "group_count ks = map (\<lambda>k. (k, count_list ks k)) (remdups ks)"

record dashboard =
  statusStats :: "(string \<times> nat) list"
  priorityStats :: "(string \<times> nat) list"
  assigneeStats :: "(oid \<times> nat \<times> string) list"
  overdueTasks :: nat
  recentActivity :: "task list"
  totalTasks :: nat

text \<open>The \<^verbatim>\<open>$match\<close> stage shared by the aggregations and by \<^verbatim>\<open>totalTasks\<close>.\<close>

definition scoped :: "oid list \<Rightarrow> task \<Rightarrow> bool" where
  "scoped projectIds t = (t_project t \<in> set projectIds \<and> t_isArchived t = False)"

text \<open>\<^verbatim>\<open>weekAgo.setDate(weekAgo.getDate() - 7)\<close> sets the clock reading back by seven
  days, taken as seven times 24 hours.\<close>

definition week_ms :: int where
  "week_ms = 7 * 24 * 60 * 60 * 1000"

text \<open>\<^verbatim>\<open>GET /api/tasks/analytics/dashboard\<close>, query by query.\<close>

definition get_dashboard :: "date \<Rightarrow> oid \<Rightarrow> store \<Rightarrow> dashboard" where
  "get_dashboard now actor s =
     (let projectIds = accessible_ids actor s;
          weekAgo = now - week_ms
      in \<lparr>statusStats = group_count (map t_status (filter (scoped projectIds) (tasks s))),
          priorityStats = group_count (map t_priority (filter (scoped projectIds) (tasks s))),
          assigneeStats =
            concat (map (\<lambda>(a, n). map (\<lambda>u. (a, n, u_firstName u @ '' '' @ u_lastName u))
                                     (filter (\<lambda>u. u_id u = a) (users s)))
                        (group_count
                           (concat (map (\<lambda>t. case t_assignee t of None \<Rightarrow> [] | Some a \<Rightarrow> [a])
                                      (filter (scoped projectIds) (tasks s)))))),
          overdueTasks =
            length (filter (\<lambda>t. scoped projectIds t \<and>
                                 (case t_dueDate t of None \<Rightarrow> False | Some d \<Rightarrow> d < now) \<and>
                                 t_status t \<noteq> ''completed'') (tasks s)),
          recentActivity =
            take 10 (sort_key (\<lambda>t. - t_updatedAt t)
                       (filter (\<lambda>t. t_project t \<in> set projectIds \<and> weekAgo \<le> t_updatedAt t)
                          (tasks s))),
          totalTasks = length (filter (scoped projectIds) (tasks s))\<rparr>)"

section \<open>Requests against the store\<close>

text \<open>The mutating requests of the API, each with the clock reading and, for a create,
  the fresh id of the new document; then the acting user and the route parameters.\<close>

datatype request =
    PostTask date oid oid task_body
  | PutTask date oid oid task_body
  | DeleteTask oid oid
  | PostComment date oid oid "string option"
  | PostProject date oid oid project_body
  | PutProject date oid oid project_body
  | DeleteProject oid oid
  | AddMember date oid oid "string option" "string option"
  | RemoveMember date oid oid string

fun handle :: "request \<Rightarrow> store \<Rightarrow> store" where
  "handle (PostTask now fresh actor b) s = snd (post_task now fresh actor b s)"
| "handle (PutTask now actor tid b) s = snd (put_task now actor tid b s)"
| "handle (DeleteTask actor tid) s = snd (delete_task actor tid s)"
| "handle (PostComment now actor tid c) s = snd (post_comment now actor tid c s)"
| "handle (PostProject now fresh actor b) s = snd (post_project now fresh actor b s)"
| "handle (PutProject now actor pid b) s = snd (put_project now actor pid b s)"
| "handle (DeleteProject actor pid) s = snd (delete_project actor pid s)"
| "handle (AddMember now actor pid uid role) s = snd (add_member now actor pid uid role s)"
| "handle (RemoveMember now actor pid uid) s = snd (remove_member now actor pid uid s)"

definition run :: "request list \<Rightarrow> store \<Rightarrow> store" where
  "run rs s = foldl (\<lambda>st r. handle r st) s rs"

definition empty_store :: store where
  "empty_store = \<lparr>users = [], projects = [], tasks = []\<rparr>"

section \<open>Properties under study\<close>

text \<open>\<^verbatim>\<open>completedAt\<close> is set exactly when the status is \<^verbatim>\<open>completed\<close>.\<close>

definition completion_ok :: "task \<Rightarrow> bool" where
  "completion_ok t = ((t_completedAt t \<noteq> None) = (t_status t = ''completed''))"

text \<open>The owner is a member exactly once, and that entry has the role \<^verbatim>\<open>owner\<close>.\<close>

definition owner_member :: "project \<Rightarrow> bool" where
  "owner_member p =
     (length (filter (\<lambda>m. m_user m = p_owner p) (p_members p)) = 1 \<and>
      list_all (\<lambda>m. m_role m = ''owner'') (filter (\<lambda>m. m_user m = p_owner p) (p_members p)))"

text \<open>Exactly one entry of the members pairs the owner with the role \<^verbatim>\<open>owner\<close>.\<close>

definition owner_entry :: "project \<Rightarrow> bool" where
  "owner_entry p =
     (length (filter (\<lambda>m. m_user m = p_owner p \<and> m_role m = ''owner'') (p_members p)) = 1)"

text \<open>The scope of the analytics, in the words of the specification: a task that is not
  archived and whose project the user owns or is a member of.\<close>

definition visible_task :: "oid \<Rightarrow> store \<Rightarrow> task \<Rightarrow> bool" where
  "visible_task actor s t =
     (\<not> t_isArchived t \<and>
      list_ex (\<lambda>p. p_id p = t_project t \<and>
                    (p_owner p = actor \<or> list_ex (\<lambda>m. m_user m = actor) (p_members p)))
        (projects s))"

section \<open>Sample data\<close>

definition no_task_fields :: task_body where
  "no_task_fields = \<lparr>b_title = None, b_description = None, b_project = None,
     b_assignee = None, b_priority = None, b_status = None, b_dueDate = None,
     b_estimatedHours = None, b_progress = None, b_labels = None\<rparr>"

definition no_project_fields :: project_body where
  "no_project_fields = \<lparr>pb_name = None, pb_description = None, pb_deadline = None,
     pb_priority = None, pb_status = None, pb_color = None, pb_tags = None,
     pb_progress = None\<rparr>"

definition no_query :: task_query where
  "no_query = \<lparr>q_page = None, q_limit = None, q_status = None, q_priority = None,
     q_project = None, q_assignee = None, q_search = None\<rparr>"

text \<open>User 10 creates project 1 and adds user 11; user 11 creates task 2, reports
  progress 40 and then completes it.\<close>

definition sample_requests :: "request list" where
  "sample_requests =
     [PostProject 100 1 10 (no_project_fields\<lparr>pb_name := Some ''Site''\<rparr>),
      AddMember 110 10 1 (Some (oid_toString 11)) None,
      PostTask 120 2 11 (no_task_fields\<lparr>b_title := Some ''Draft'', b_project := Some 1\<rparr>),
      PutTask 125 11 2 (no_task_fields\<lparr>b_progress := Some 40\<rparr>),
      PutTask 130 11 2 (no_task_fields\<lparr>b_status := Some ''completed''\<rparr>)]"

definition sample_store :: store where
  "sample_store = run sample_requests empty_store"

text \<open>Task 2 before and after the last of these requests.\<close>

definition sample_task_open :: task where
  "sample_task_open =
     \<lparr>t_id = 2, t_title = ''Draft'', t_description = [], t_status = ''todo'',
      t_priority = ''medium'', t_project = 1, t_assignee = None, t_reporter = 11,
      t_labels = [], t_dueDate = None, t_estimatedHours = None, t_progress = 40,
      t_comments = [], t_completedAt = None, t_isArchived = False, t_createdAt = 120,
      t_updatedAt = 125\<rparr>"

definition sample_task_done :: task where
  "sample_task_done =
     sample_task_open\<lparr>t_status := ''completed'', t_progress := 100,
       t_completedAt := Some 130, t_updatedAt := 130\<rparr>"

definition sample_project :: project where
  "sample_project =
     \<lparr>p_id = 1, p_name = ''Site'', p_description = [], p_status = ''planning'',
      p_priority = ''medium'', p_deadline = None, p_owner = 10,
      p_members = [\<lparr>m_user = 10, m_role = ''owner'', m_joinedAt = 100\<rparr>,
                   \<lparr>m_user = 11, m_role = ''member'', m_joinedAt = 110\<rparr>],
      p_tags = [], p_color = ''#2196F3'', p_progress = 0, p_isArchived = False,
      p_createdAt = 100, p_updatedAt = 110\<rparr>"

text \<open>User 10 creates project 1 and makes user 11 an admin; user 11 tries to add the
  owner again and to remove the owner, then sets the project active; user 10 removes
  user 11.\<close>

definition membership_requests :: "request list" where
  "membership_requests =
     [PostProject 100 1 10 (no_project_fields\<lparr>pb_name := Some ''Site''\<rparr>),
      AddMember 110 10 1 (Some (oid_toString 11)) (Some ''admin''),
      AddMember 120 11 1 (Some (oid_toString 10)) None,
      RemoveMember 130 11 1 (oid_toString 10),
      PutProject 140 11 1 (no_project_fields\<lparr>pb_status := Some ''active''\<rparr>),
      RemoveMember 150 10 1 (oid_toString 11)]"

text \<open>The id 10 of the owner of the sample project, spelled with an upper-case digit.\<close>

definition owner_id_upper :: string where
  "owner_id_upper = ''00000000000000000000000A''"

text \<open>User 10 owns projects 1 and 3, with one task in each.\<close>

definition two_project_requests :: "request list" where
  "two_project_requests =
     [PostProject 100 1 10 (no_project_fields\<lparr>pb_name := Some ''Site''\<rparr>),
      PostProject 105 3 10 (no_project_fields\<lparr>pb_name := Some ''Shop''\<rparr>),
      PostTask 120 2 10 (no_task_fields\<lparr>b_title := Some ''Draft'', b_project := Some 1\<rparr>),
      PostTask 125 4 10 (no_task_fields\<lparr>b_title := Some ''Stock'', b_project := Some 3\<rparr>)]"

text \<open>The sample store with its task archived.\<close>

definition archived_store :: store where
  "archived_store = sample_store\<lparr>tasks := map (\<lambda>t. t\<lparr>t_isArchived := True\<rparr>) (tasks sample_store)\<rparr>"

text \<open>Users 10 and 12 each own a project; user 11 is a member of the first. Project 1
  has an open task, a completed one and an archived one, project 3 has one task.\<close>

definition dashboard_requests :: "request list" where
  "dashboard_requests =
     [PostProject 100 1 10 (no_project_fields\<lparr>pb_name := Some ''Site''\<rparr>),
      AddMember 110 10 1 (Some (oid_toString 11)) None,
      PostProject 115 3 12 (no_project_fields\<lparr>pb_name := Some ''Shop''\<rparr>),
      PostTask 120 2 11 (no_task_fields\<lparr>b_title := Some ''Draft'', b_project := Some 1\<rparr>),
      PostTask 121 4 10 (no_task_fields\<lparr>b_title := Some ''Plan'', b_project := Some 1,
                                        b_status := Some ''completed''\<rparr>),
      PostTask 122 5 11 (no_task_fields\<lparr>b_title := Some ''Notes'', b_project := Some 1\<rparr>),
      PostTask 123 6 12 (no_task_fields\<lparr>b_title := Some ''Stock'', b_project := Some 3\<rparr>)]"

definition dashboard_store :: store where
  "dashboard_store =
     (let s = run dashboard_requests empty_store
      in s\<lparr>tasks := map (\<lambda>t. if t_id t = 5 then t\<lparr>t_isArchived := True\<rparr> else t) (tasks s)\<rparr>)"

section \<open>Basic facts about documents\<close>

lemma assign_task: "d_task (assign p f d) = f (d_task d)"
  by (simp add: assign_def Let_def)

lemma assign_isNew: "d_isNew (assign p f d) = d_isNew d"
  by (simp add: assign_def Let_def)

lemma assign_modified:
  "isModified q (assign p f d) =
     (isModified q d \<or> (q = p \<and> (d_isNew d \<or> f (d_task d) \<noteq> d_task d)))"
  by (auto simp add: assign_def Let_def isModified_def)

lemma opt_assign_task:
  "d_task (opt_assign v (\<lambda>x. assign p (g x)) d) =
     (case v of None \<Rightarrow> d_task d | Some x \<Rightarrow> g x (d_task d))"
  by (simp add: opt_assign_def assign_task split: option.splits)

lemma opt_assign_isNew: "d_isNew (opt_assign v (\<lambda>x. assign p (g x)) d) = d_isNew d"
  by (simp add: opt_assign_def assign_isNew split: option.splits)

lemma opt_assign_modified:
  "isModified q (opt_assign v (\<lambda>x. assign p (g x)) d) =
     (isModified q d \<or>
      (q = p \<and> (\<exists>x. v = Some x \<and> (d_isNew d \<or> g x (d_task d) \<noteq> d_task d))))"
  by (auto simp add: opt_assign_def assign_modified split: option.splits)

lemma load_simps:
  "d_task (load t) = t" "d_isNew (load t) = False" "isModified q (load t) = False"
  by (simp_all add: load_def isModified_def)

lemma status_update_same: "(t\<lparr>t_status := v\<rparr> = t) = (v = t_status t)"
  by (cases t) simp

text \<open>What the assignment loop of the update route does to the fields the hook reads.\<close>

lemma update_completedAt: "t_completedAt (d_task (apply_update b (load t))) = t_completedAt t"
  by (simp add: apply_update_def Let_def opt_assign_task load_simps split: option.splits)

lemma update_status:
  "t_status (d_task (apply_update b (load t))) =
     (case b_status b of None \<Rightarrow> t_status t | Some v \<Rightarrow> v)"
  by (simp add: apply_update_def Let_def opt_assign_task load_simps split: option.splits)


lemma update_id: "t_id (d_task (apply_update b (load t))) = t_id t"
  by (simp add: apply_update_def Let_def opt_assign_task load_simps split: option.splits)

lemma update_status_modified:
  "isModified ''status'' (apply_update b (load t)) =
     (\<exists>v. b_status b = Some v \<and> v \<noteq> t_status t)"
  by (simp add: apply_update_def Let_def opt_assign_modified opt_assign_isNew opt_assign_task
        load_simps status_update_same split: option.splits)

text \<open>The hook, case by case.\<close>

lemma pre_save_unmodified: "\<not> isModified ''status'' d \<Longrightarrow> pre_save now d = d"
  by (simp add: pre_save_def Let_def)

lemma pre_save_modified:
  "isModified ''status'' d \<Longrightarrow>
   d_task (pre_save now d) =
     (if t_status (d_task d) = ''completed''
      then (if t_completedAt (d_task d) = None
            then (d_task d)\<lparr>t_completedAt := Some now, t_progress := 100\<rparr>
            else d_task d)
      else (d_task d)\<lparr>t_completedAt := None\<rparr>)"
  by (cases "d_task d") (auto simp add: pre_save_def Let_def isModified_def)

lemma pre_save_flags:
  "d_isNew (pre_save now d) = d_isNew d" "d_modified (pre_save now d) = d_modified d"
  by (simp_all add: pre_save_def Let_def)

lemma pre_save_ok:
  "isModified ''status'' d \<Longrightarrow> completion_ok (d_task (pre_save now d))"
  by (auto simp add: pre_save_modified completion_ok_def)

lemma timestamps_fields:
  "t_status (timestamps now d) = t_status (d_task d)"
  "t_completedAt (timestamps now d) = t_completedAt (d_task d)"
  "t_progress (timestamps now d) = t_progress (d_task d)"
  "t_id (timestamps now d) = t_id (d_task d)"
  by (simp_all add: timestamps_def)

lemma completion_ok_timestamps:
  "completion_ok (timestamps now d) = completion_ok (d_task d)"
  by (simp add: completion_ok_def timestamps_fields)

lemma save_task_Inr:
  "save_task now d = Inr t' \<Longrightarrow> t' = timestamps now (pre_save now d)"
  by (simp add: save_task_def split: list.splits)

lemma save_task_ok:
  assumes "save_task now d = Inr t'"
    and "isModified ''status'' d \<or> completion_ok (d_task d)"
  shows "completion_ok t'"
proof -
  have eq: "t' = timestamps now (pre_save now d)"
    using assms(1) by (rule save_task_Inr)
  show ?thesis
  proof (cases "isModified ''status'' d")
    case True
    then show ?thesis
      by (simp add: eq completion_ok_timestamps pre_save_ok)
  next
    case False
    with assms(2) show ?thesis
      by (simp add: eq completion_ok_timestamps pre_save_unmodified)
  qed
qed

lemma find_in_set: "find P xs = Some x \<Longrightarrow> x \<in> set xs \<and> P x"
  by (induction xs) (auto split: if_splits)

lemma findById_task_Some: "findById_task i s = Some t \<Longrightarrow> t \<in> set (tasks s) \<and> t_id t = i"
  by (auto simp add: findById_task_def dest: find_in_set)

lemma findById_project_Some:
  "findById_project i s = Some p \<Longrightarrow> p \<in> set (projects s) \<and> p_id p = i"
  by (auto simp add: findById_project_def dest: find_in_set)

lemma list_all_replace:
  "list_all P xs \<Longrightarrow> P y \<Longrightarrow> list_all P (map (\<lambda>x. if k x = k y then y else x) xs)"
  by (induction xs) auto

section \<open>The completion timestamp follows the status\<close>

lemma update_keeps_ok:
  "completion_ok t \<Longrightarrow>
   isModified ''status'' (apply_update b (load t)) \<or>
   completion_ok (d_task (apply_update b (load t)))"
  by (auto simp add: completion_ok_def update_status update_completedAt update_status_modified
        split: option.splits)

lemma new_task_status_modified: "isModified ''status'' (new_task fresh actor proj b)"
  by (simp add: new_task_def isModified_def)

lemma tasks_write_task:
  "tasks (write_task t s) = map (\<lambda>x. if t_id x = t_id t then t else x) (tasks s)"
  by (simp add: write_task_def)

lemma tasks_insert_task: "tasks (insert_task t s) = tasks s @ [t]"
  by (simp add: insert_task_def)

lemma post_task_ok:
  assumes "list_all completion_ok (tasks s)"
  shows "list_all completion_ok (tasks (snd (post_task now fresh actor b s)))"
  using assms
  by (auto simp add: post_task_def tasks_insert_task
        intro: save_task_ok new_task_status_modified
        split: list.splits option.splits sum.splits)

lemma put_task_ok:
  assumes "list_all completion_ok (tasks s)"
  shows "list_all completion_ok (tasks (snd (put_task now actor tid b s)))"
proof (cases "findById_task tid s")
  case None
  with assms show ?thesis
    by (simp add: put_task_def split: list.splits)
next
  case (Some t)
  then have "t \<in> set (tasks s)"
    by (simp add: findById_task_Some)
  with assms have ok: "completion_ok t"
    by (simp add: list_all_iff)
  have saved: "completion_ok t'" if "save_task now (apply_update b (load t)) = Inr t'" for t'
    using that update_keeps_ok [OF ok] by (rule save_task_ok)
  show ?thesis
    using assms Some saved
    by (auto simp add: put_task_def tasks_write_task list_all_replace
          split: list.splits option.splits sum.splits)
qed

lemma post_comment_ok:
  assumes "list_all completion_ok (tasks s)"
  shows "list_all completion_ok (tasks (snd (post_comment now actor tid c s)))"
proof (cases "findById_task tid s")
  case None
  with assms show ?thesis
    by (simp add: post_comment_def split: option.splits)
next
  case (Some t)
  then have "t \<in> set (tasks s)"
    by (simp add: findById_task_Some)
  with assms have ok: "completion_ok t"
    by (simp add: list_all_iff)
  have saved: "completion_ok t'"
    if "save_task now (assign ''comments'' (\<lambda>t. t\<lparr>t_comments := t_comments t @ [x]\<rparr>) (load t))
          = Inr t'" for t' x
    using that
  proof (rule save_task_ok)
    show "isModified ''status''
            (assign ''comments'' (\<lambda>t. t\<lparr>t_comments := t_comments t @ [x]\<rparr>) (load t)) \<or>
          completion_ok
            (d_task (assign ''comments'' (\<lambda>t. t\<lparr>t_comments := t_comments t @ [x]\<rparr>) (load t)))"
      using ok by (simp add: assign_task load_simps completion_ok_def)
  qed
  show ?thesis
    using assms Some saved
    by (auto simp add: post_comment_def Let_def tasks_write_task list_all_replace
          split: option.splits sum.splits)
qed

lemma delete_task_ok:
  assumes "list_all completion_ok (tasks s)"
  shows "list_all completion_ok (tasks (snd (delete_task actor tid s)))"
  using assms
  by (auto simp add: delete_task_def list_all_iff split: option.splits)

lemma post_project_tasks: "tasks (snd (post_project now fresh actor b s)) = tasks s"
  by (simp add: post_project_def insert_project_def split: list.splits sum.splits)

lemma put_project_tasks: "tasks (snd (put_project now actor pid b s)) = tasks s"
  by (simp add: put_project_def write_project_def split: list.splits option.splits sum.splits)

lemma add_member_tasks: "tasks (snd (add_member now actor pid uid role s)) = tasks s"
  by (simp add: add_member_def write_project_def split: list.splits option.splits sum.splits)

lemma remove_member_tasks: "tasks (snd (remove_member now actor pid uid s)) = tasks s"
  by (simp add: remove_member_def write_project_def split: option.splits sum.splits)

lemma delete_project_ok:
  assumes "list_all completion_ok (tasks s)"
  shows "list_all completion_ok (tasks (snd (delete_project actor pid s)))"
  using assms
  by (auto simp add: delete_project_def Let_def list_all_iff split: option.splits)

lemma handle_ok:
  "list_all completion_ok (tasks s) \<Longrightarrow> list_all completion_ok (tasks (handle r s))"
  by (cases r)
    (simp_all add: post_task_ok put_task_ok delete_task_ok post_comment_ok delete_project_ok
       post_project_tasks put_project_tasks add_member_tasks remove_member_tasks)

lemma run_Nil: "run [] s = s"
  by (simp add: run_def)

lemma run_Cons: "run (r # rs) s = run rs (handle r s)"
  by (simp add: run_def)

text \<open>
  C1. For every sequence of requests against a store in which \<^verbatim>\<open>completedAt\<close> is set
  exactly for the completed tasks, the same holds of every task afterwards: of the tasks
  created on the way, whose first save stamps them if they start completed, and of the
  tasks updated, whose save stamps them when the status moves to \<^verbatim>\<open>completed\<close> and
  clears the stamp when it moves away. The empty store is such a store.
\<close>

theorem completedAt_iff_completed:
  assumes "list_all completion_ok (tasks s)"
  shows "list_all completion_ok (tasks (run rs s))"
  using assms
proof (induction rs arbitrary: s)
  case Nil
  then show ?case by (simp add: run_Nil)
next
  case (Cons r rs)
  from Cons.prems have "list_all completion_ok (tasks (handle r s))"
    by (rule handle_ok)
  then show ?case
    by (simp add: run_Cons Cons.IH)
qed

theorem completedAt_iff_completed_witness:
  "list_all completion_ok (tasks empty_store) \<and>
   map t_status (tasks (run sample_requests empty_store)) = [''completed''] \<and>
   map t_completedAt (tasks (run sample_requests empty_store)) = [Some 130] \<and>
   list_all completion_ok (tasks (run sample_requests empty_store))"
proof -
  have h: "list_all completion_ok (tasks empty_store)"
    by code_simp
  have e1: "map t_status (tasks (run sample_requests empty_store)) = [''completed'']"
    by code_simp
  have e2: "map t_completedAt (tasks (run sample_requests empty_store)) = [Some 130]"
    by code_simp
  from completedAt_iff_completed [OF h, of sample_requests] h e1 e2 show ?thesis
    by blast
qed

section \<open>Effects of a task update\<close>

lemma put_task_success:
  assumes "put_task now actor tid b s = (Success c t', s')"
  shows "\<exists>t. findById_task tid s = Some t \<and>
             save_task now (apply_update b (load t)) = Inr t' \<and> s' = write_task t' s \<and> c = 200"
  using assms
  by (auto simp add: put_task_def split: list.splits option.splits if_splits sum.splits)

lemma find_replace:
  "find (\<lambda>x. k x = i) xs = Some t \<Longrightarrow> k y = i \<Longrightarrow>
   find (\<lambda>x. k x = i) (map (\<lambda>x. if k x = k y then y else x) xs) = Some y"
  by (induction xs) (auto split: if_splits)

lemma findById_write_task:
  assumes "findById_task i s = Some t" and "t_id t' = i"
  shows "findById_task i (write_task t' s) = Some t'"
  using find_replace [of t_id i "tasks s" t t'] assms
  by (simp add: findById_task_def write_task_def)

lemma saved_update_fields:
  assumes "save_task now (apply_update b (load t)) = Inr t'"
  shows "t_id t' = t_id t"
    and "t_status t' = (case b_status b of None \<Rightarrow> t_status t | Some v \<Rightarrow> v)"
proof -
  have eq: "t' = timestamps now (pre_save now (apply_update b (load t)))"
    using assms by (rule save_task_Inr)
  have frame: "t_id (d_task (pre_save now d)) = t_id (d_task d) \<and>
               t_status (d_task (pre_save now d)) = t_status (d_task d)" for d
    by (simp add: pre_save_def Let_def)
  show "t_id t' = t_id t"
    by (simp add: eq timestamps_fields frame update_id)
  show "t_status t' = (case b_status b of None \<Rightarrow> t_status t | Some v \<Rightarrow> v)"
    by (simp add: eq timestamps_fields frame update_status)
qed

text \<open>
  C2 (as amended). For every task whose status is not yet \<^verbatim>\<open>completed\<close> (and whose
  \<^verbatim>\<open>completedAt\<close> is unset, as C1 gives), whatever its progress, a saved update that
  sets the status to \<^verbatim>\<open>completed\<close> stores the task with status \<^verbatim>\<open>completed\<close>,
  \<^verbatim>\<open>completedAt\<close> equal to the time of the save and progress exactly 100.
\<close>

theorem put_task_completes:
  assumes "findById_task tid s = Some t"
    and "completion_ok t"
    and "t_status t \<noteq> ''completed''"
    and "b_status b = Some ''completed''"
    and "put_task now actor tid b s = (Success c t', s')"
  shows "t_status t' = ''completed'' \<and> t_completedAt t' = Some now \<and> t_progress t' = 100 \<and>
         findById_task tid s' = Some t'"
proof -
  let ?d = "apply_update b (load t)"
  from put_task_success [OF assms(5)] assms(1)
  have saved: "save_task now ?d = Inr t'" and s': "s' = write_task t' s"
    by auto
  have eq: "t' = timestamps now (pre_save now ?d)"
    using saved by (rule save_task_Inr)
  have unset: "t_completedAt t = None"
    using assms(2,3) by (simp add: completion_ok_def)
  have modified: "isModified ''status'' ?d"
    using assms(3,4) by (auto simp add: update_status_modified)
  have status: "t_status (d_task ?d) = ''completed''"
    using assms(4) by (simp add: update_status)
  have stamped: "d_task (pre_save now ?d) = (d_task ?d)\<lparr>t_completedAt := Some now, t_progress := 100\<rparr>"
    using status unset by (simp add: pre_save_modified [OF modified] update_completedAt)
  have id: "t_id t' = tid"
    using saved_update_fields(1) [OF saved] assms(1) by (simp add: findById_task_Some)
  have "t_status t' = ''completed''"
    by (simp add: eq timestamps_fields stamped status)
  moreover have "t_completedAt t' = Some now"
    by (simp add: eq timestamps_fields stamped)
  moreover have "t_progress t' = 100"
    by (simp add: eq timestamps_fields stamped)
  moreover have "findById_task tid s' = Some t'"
    using assms(1) id by (simp add: s' findById_write_task)
  ultimately show ?thesis
    by simp
qed

theorem put_task_completes_witness:
  "findById_task 2 (run (take 4 sample_requests) empty_store) = Some sample_task_open \<and>
   t_progress sample_task_open = 40 \<and>
   put_task 130 11 2 (no_task_fields\<lparr>b_status := Some ''completed''\<rparr>)
     (run (take 4 sample_requests) empty_store) = (Success 200 sample_task_done, sample_store) \<and>
   t_status sample_task_done = ''completed'' \<and>
   t_completedAt sample_task_done = Some 130 \<and>
   t_progress sample_task_done = 100 \<and>
   findById_task 2 sample_store = Some sample_task_done"
proof -
  let ?s = "run (take 4 sample_requests) empty_store"
  let ?b = "no_task_fields\<lparr>b_status := Some ''completed''\<rparr>"
  have h1: "findById_task 2 ?s = Some sample_task_open"
    by code_simp
  have h2: "completion_ok sample_task_open"
    by code_simp
  have h3: "t_status sample_task_open \<noteq> ''completed''"
    by code_simp
  have h4: "b_status ?b = Some ''completed''"
    by simp
  have h5: "put_task 130 11 2 ?b ?s = (Success 200 sample_task_done, sample_store)"
    by code_simp
  have h6: "t_progress sample_task_open = 40"
    by code_simp
  from put_task_completes [OF h1 h2 h3 h4 h5] h1 h5 h6 show ?thesis
    by simp
qed

text \<open>
  C2, counterexample. Task 2 of the sample store is completed; its progress is then set
  to 50; a further saved update that sets the status to \<^verbatim>\<open>completed\<close> leaves the
  progress at 50.
\<close>

theorem put_task_completes_counterexample:
  "b_status (no_task_fields\<lparr>b_status := Some ''completed''\<rparr>) = Some ''completed'' \<and>
   (case fst (put_task 150 11 2 (no_task_fields\<lparr>b_status := Some ''completed''\<rparr>)
               (run [PutTask 140 11 2 (no_task_fields\<lparr>b_progress := Some 50\<rparr>)] sample_store)) of
      Success c t' \<Rightarrow> c = 200 \<and> t_status t' = ''completed'' \<and> t_progress t' = 50
    | ValidationErrors _ \<Rightarrow> False
    | Failure _ _ \<Rightarrow> False)"
  by code_simp



section \<open>Project membership\<close>

lemma save_new_project:
  assumes "save_project now None p = Inr q" and "p_members p = []"
  shows "p_owner q = p_owner p"
    and "p_members q = [\<lparr>m_user = p_owner p, m_role = ''owner'', m_joinedAt = now\<rparr>]"
  using assms
  by (auto simp add: save_project_def project_pre_save_def Let_def split: list.splits)

lemma save_old_project:
  assumes "save_project now (Some old) p = Inr q"
  shows "p_owner q = p_owner p \<and> p_members q = p_members p \<and> p_id q = p_id p"
  using assms
  by (auto simp add: save_project_def project_pre_save_def Let_def split: list.splits if_splits)

text \<open>Creation: the members of the project stored are the owner's entry and nothing else.\<close>

lemma post_project_creates_owner:
  assumes "post_project now fresh actor b s = (Success c p, s')"
  shows "p_owner p = actor \<and>
         p_members p = [\<lparr>m_user = actor, m_role = ''owner'', m_joinedAt = now\<rparr>] \<and>
         projects s' = projects s @ [p]"
proof -
  from assms have saved: "save_project now None (new_project fresh actor b) = Inr p"
    and s': "s' = insert_project p s"
    by (auto simp add: post_project_def split: list.splits sum.splits)
  have "p_members (new_project fresh actor b) = []"
    and "p_owner (new_project fresh actor b) = actor"
    by (simp_all add: new_project_def)
  with save_new_project [OF saved] show ?thesis
    by (simp add: s' insert_project_def)
qed

lemma post_project_owner_member:
  assumes "post_project now fresh actor b s = (Success c p, s')"
  shows "owner_member p"
  using post_project_creates_owner [OF assms] by (simp add: owner_member_def)

lemma apply_project_update_frame:
  "p_owner (apply_project_update b p) = p_owner p \<and>
   p_members (apply_project_update b p) = p_members p"
  by (simp add: apply_project_update_def opt_set_def Let_def split: option.splits)

lemma projects_write_project:
  "projects (write_project p s) = map (\<lambda>x. if p_id x = p_id p then p else x) (projects s)"
  by (simp add: write_project_def)

text \<open>What every request keeps, whatever the spelling of the ids it carries: exactly one
  entry pairs the owner with the role \<^verbatim>\<open>owner\<close>.\<close>

lemma post_project_entry:
  assumes "list_all owner_entry (projects s)"
  shows "list_all owner_entry (projects (snd (post_project now fresh actor b s)))"
proof (cases "post_project now fresh actor b s")
  case (Pair r s')
  show ?thesis
  proof (cases r)
    case (Success c p)
    with Pair post_project_creates_owner [of now fresh actor b s c p s'] assms show ?thesis
      by (simp add: owner_entry_def)
  next
    case (ValidationErrors es)
    with Pair have "s' = s"
      by (auto simp add: post_project_def split: list.splits sum.splits)
    with Pair assms show ?thesis by simp
  next
    case (Failure c m)
    with Pair have "s' = s"
      by (auto simp add: post_project_def split: list.splits sum.splits)
    with Pair assms show ?thesis by simp
  qed
qed

lemma put_project_entry:
  assumes "list_all owner_entry (projects s)"
  shows "list_all owner_entry (projects (snd (put_project now actor pid b s)))"
proof (cases "findById_project pid s")
  case None
  with assms show ?thesis
    by (simp add: put_project_def split: list.splits)
next
  case (Some p)
  then have "p \<in> set (projects s)"
    by (simp add: findById_project_Some)
  with assms have ok: "owner_entry p"
    by (simp add: list_all_iff)
  have saved: "owner_entry q" if "save_project now (Some p) (apply_project_update b p) = Inr q" for q
    using save_old_project [OF that] ok
    by (simp add: owner_entry_def apply_project_update_frame)
  show ?thesis
    using assms Some saved
    by (auto simp add: put_project_def projects_write_project list_all_replace
          split: list.splits sum.splits)
qed

lemma role_not_owner:
  assumes "check_isIn ''role'' [''admin'', ''member'', ''viewer''] role = []"
  shows "(case role of None \<Rightarrow> ''member'' | Some r \<Rightarrow> r) \<noteq> ''owner''"
  using assms by (auto simp add: check_isIn_def split: option.splits if_splits)

lemma add_member_entry:
  assumes "list_all owner_entry (projects s)"
  shows "list_all owner_entry (projects (snd (add_member now actor pid userId role s)))"
proof (cases "findById_project pid s")
  case None
  with assms show ?thesis
    by (simp add: add_member_def split: list.splits option.splits)
next
  case (Some p)
  then have "p \<in> set (projects s)"
    by (simp add: findById_project_Some)
  with assms have ok: "owner_entry p"
    by (simp add: list_all_iff)
  have saved: "owner_entry q"
    if checked: "check_isIn ''role'' [''admin'', ''member'', ''viewer''] role = []"
      and save: "save_project now (Some p)
                   (p\<lparr>p_members := p_members p @
                        [\<lparr>m_user = uid,
                          m_role = (case role of None \<Rightarrow> ''member'' | Some r \<Rightarrow> r),
                          m_joinedAt = now\<rparr>]\<rparr>) = Inr q" for q uid
    using save_old_project [OF save] ok role_not_owner [OF checked]
    by (simp add: owner_entry_def)
  show ?thesis
    using assms Some saved
    by (auto simp add: add_member_def projects_write_project list_all_replace
          split: list.splits option.splits sum.splits if_splits)
qed

lemma filter_filter_same:
  assumes "\<And>x. P x \<Longrightarrow> Q x"
  shows "filter P (filter Q xs) = filter P xs"
  using assms by (induction xs) auto

lemma remove_member_entry:
  assumes "list_all owner_entry (projects s)"
  shows "list_all owner_entry (projects (snd (remove_member now actor pid userId s)))"
proof (cases "findById_project pid s")
  case None
  with assms show ?thesis
    by (simp add: remove_member_def)
next
  case (Some p)
  then have "p \<in> set (projects s)"
    by (simp add: findById_project_Some)
  with assms have ok: "owner_entry p"
    by (simp add: list_all_iff)
  have keep: "filter (\<lambda>m. m_user m = p_owner p \<and> m_role m = ''owner'')
                (filter (other_user userId) (p_members p)) =
              filter (\<lambda>m. m_user m = p_owner p \<and> m_role m = ''owner'') (p_members p)"
    if "userId \<noteq> oid_toString (p_owner p)"
    using that by (intro filter_filter_same) (auto simp add: other_user_def)
  have saved: "owner_entry q"
    if "userId \<noteq> oid_toString (p_owner p)"
      and "save_project now (Some p)
             (p\<lparr>p_members := filter (other_user userId) (p_members p)\<rparr>) = Inr q" for q
    using save_old_project [OF that(2)] ok keep [OF that(1)]
    by (simp add: owner_entry_def)
  show ?thesis
    using assms Some saved
    by (auto simp add: remove_member_def projects_write_project list_all_replace
          split: sum.splits)
qed

lemma task_routes_projects:
  "projects (snd (post_task now fresh actor b s)) = projects s"
  "projects (snd (put_task now actor tid b s)) = projects s"
  "projects (snd (delete_task actor tid s)) = projects s"
  "projects (snd (post_comment now actor tid c s)) = projects s"
  by (simp_all add: post_task_def put_task_def delete_task_def post_comment_def Let_def
        insert_task_def write_task_def split: list.splits option.splits sum.splits)

lemma delete_project_entry:
  assumes "list_all owner_entry (projects s)"
  shows "list_all owner_entry (projects (snd (delete_project actor pid s)))"
  using assms
  by (auto simp add: delete_project_def Let_def list_all_iff split: option.splits)

lemma handle_entry:
  "list_all owner_entry (projects s) \<Longrightarrow> list_all owner_entry (projects (handle r s))"
  by (cases r)
    (simp_all add: task_routes_projects post_project_entry put_project_entry
       add_member_entry remove_member_entry delete_project_entry)

lemma owner_entry_kept:
  assumes "list_all owner_entry (projects s)"
  shows "list_all owner_entry (projects (run rs s))"
  using assms
proof (induction rs arbitrary: s)
  case Nil
  then show ?case by (simp add: run_Nil)
next
  case (Cons r rs)
  from Cons.prems have "list_all owner_entry (projects (handle r s))"
    by (rule handle_entry)
  then show ?case
    by (simp add: run_Cons Cons.IH)
qed

text \<open>
  C3, the failing input. User 10 owns the sample project and user 11 is a member; the
  owner is a member exactly once, with the role \<^verbatim>\<open>owner\<close>. User 10 then posts a member
  whose \<^verbatim>\<open>userId\<close> is the owner's own id written with an upper-case digit. The text
  passes \<^verbatim>\<open>isMongoId()\<close>, equals no \<^verbatim>\<open>member.user.toString()\<close>, and is cast to the
  owner's id when pushed: the request succeeds and the owner is now a member twice, once
  with the role \<^verbatim>\<open>member\<close>.
\<close>

theorem owner_added_again:
  "isMongoId owner_id_upper \<and>
   cast_oid owner_id_upper = Some 10 \<and>
   oid_toString 10 = ''00000000000000000000000a'' \<and>
   map p_owner (projects (run (take 2 sample_requests) empty_store)) = [10] \<and>
   list_all owner_member (projects (run (take 2 sample_requests) empty_store)) \<and>
   http_status (fst (add_member 120 10 1 (Some owner_id_upper) None
                       (run (take 2 sample_requests) empty_store))) = 200 \<and>
   map (\<lambda>m. (m_user m, m_role m))
     (concat (map p_members
        (projects (snd (add_member 120 10 1 (Some owner_id_upper) None
                          (run (take 2 sample_requests) empty_store)))))) =
     [(10, ''owner''), (11, ''member''), (10, ''member'')] \<and>
   list_all owner_member
     (projects (snd (add_member 120 10 1 (Some owner_id_upper) None
                       (run (take 2 sample_requests) empty_store)))) = False"
  by code_simp

text \<open>Removing the owner under the id as \<^verbatim>\<open>toString()\<close> spells it is refused, for every
  project and every actor who may manage it, and the store stays as it is.\<close>

lemma remove_owner_canonical_refused:
  assumes "findById_project pid s = Some p"
    and "isOwner actor p \<or> isAdmin actor p"
  shows "remove_member now actor pid (oid_toString (p_owner p)) s =
           (Failure 400 ''Cannot remove project owner'', s)"
  using assms by (auto simp add: remove_member_def)

text \<open>
  C4, the failing input. The owner of the sample project asks to remove the member whose
  id is the owner's own, written with an upper-case digit. The text differs from
  \<^verbatim>\<open>project.owner.toString()\<close>, so the owner test does not fire; the filter drops no
  member, the project is saved, and the answer is 200 \<^verbatim>\<open>Member removed successfully\<close>.
  The same request with the lower-case text is answered 400.
\<close>

theorem owner_removal_not_refused:
  "findById_project 1 sample_store = Some sample_project \<and>
   p_owner sample_project = 10 \<and>
   isOwner 10 sample_project \<and>
   cast_oid owner_id_upper = Some 10 \<and>
   fst (remove_member 140 10 1 owner_id_upper sample_store) =
     Success 200 ''Member removed successfully'' \<and>
   map p_members (projects (snd (remove_member 140 10 1 owner_id_upper sample_store))) =
     [p_members sample_project] \<and>
   remove_member 140 10 1 ''00000000000000000000000a'' sample_store =
     (Failure 400 ''Cannot remove project owner'', sample_store)"
  by code_simp

section \<open>Deleting a project\<close>

lemma find_None_iff_none: "(find P xs = None) = (\<forall>x\<in>set xs. \<not> P x)"
  by (induction xs) auto

lemma deleted_task_gone:
  assumes "distinct (map t_id xs)" and "t \<in> set xs" and "t_project t = pid"
  shows "find (\<lambda>x. t_id x = t_id t) (filter (\<lambda>x. t_project x \<noteq> pid) xs) = None"
proof -
  have inj: "inj_on t_id (set xs)"
    using assms(1) by (simp add: distinct_map)
  have "x = t" if "x \<in> set xs" and "t_id x = t_id t" for x
    using inj that assms(2) by (auto dest: inj_onD)
  with assms(3) show ?thesis
    by (auto simp add: find_None_iff_none)
qed

text \<open>
  C5. For every request to delete an existing project, in a store whose task ids are
  distinct: an actor other than the owner gets 403 and the store is as before (neither
  the project nor any task is deleted); for the owner the request succeeds, the tasks
  left are those of the other projects, the project is no longer found, and looking up
  any task that referred to the project then answers 404.
\<close>

theorem delete_project_cascades:
  assumes "findById_project pid s = Some p"
    and "distinct (map t_id (tasks s))"
  shows "(actor \<noteq> p_owner p \<longrightarrow>
            delete_project actor pid s =
              (Failure 403 ''Only project owner can delete the project'', s)) \<and>
         (actor = p_owner p \<longrightarrow>
            fst (delete_project actor pid s) =
              Success 200 ''Project and all associated tasks deleted successfully'' \<and>
            tasks (snd (delete_project actor pid s)) =
              filter (\<lambda>t. t_project t \<noteq> pid) (tasks s) \<and>
            findById_project pid (snd (delete_project actor pid s)) = None \<and>
            (\<forall>t\<in>set (tasks s). t_project t = pid \<longrightarrow>
               get_task viewer (t_id t) (snd (delete_project actor pid s)) =
                 Failure 404 ''Task not found''))"
proof (intro conjI impI)
  assume "actor \<noteq> p_owner p"
  with assms(1) show "delete_project actor pid s =
      (Failure 403 ''Only project owner can delete the project'', s)"
    by (auto simp add: delete_project_def)
next
  assume owner: "actor = p_owner p"
  with assms(1) show "fst (delete_project actor pid s) =
      Success 200 ''Project and all associated tasks deleted successfully''"
    by (simp add: delete_project_def Let_def)
  from owner assms(1) show left: "tasks (snd (delete_project actor pid s)) =
      filter (\<lambda>t. t_project t \<noteq> pid) (tasks s)"
    by (simp add: delete_project_def Let_def)
  from owner assms(1) show "findById_project pid (snd (delete_project actor pid s)) = None"
    by (simp add: delete_project_def Let_def findById_project_def find_None_iff_none)
  show "\<forall>t\<in>set (tasks s). t_project t = pid \<longrightarrow>
          get_task viewer (t_id t) (snd (delete_project actor pid s)) =
            Failure 404 ''Task not found''"
  proof (intro ballI impI)
    fix t
    assume "t \<in> set (tasks s)" and "t_project t = pid"
    with assms(2) have "findById_task (t_id t) (snd (delete_project actor pid s)) = None"
      by (simp add: findById_task_def left deleted_task_gone)
    then show "get_task viewer (t_id t) (snd (delete_project actor pid s)) =
        Failure 404 ''Task not found''"
      by (simp add: get_task_def)
  qed
qed

theorem delete_project_cascades_witness:
  "findById_project 1 sample_store = Some sample_project \<and>
   tasks sample_store = [sample_task_done] \<and>
   t_project sample_task_done = 1 \<and>
   get_task 11 2 sample_store = Success 200 sample_task_done \<and>
   delete_project 11 1 sample_store =
     (Failure 403 ''Only project owner can delete the project'', sample_store) \<and>
   delete_project 10 1 sample_store =
     (Success 200 ''Project and all associated tasks deleted successfully'', empty_store) \<and>
   get_task 11 2 (snd (delete_project 10 1 sample_store)) = Failure 404 ''Task not found''"
proof -
  have h1: "findById_project 1 sample_store = Some sample_project"
    by code_simp
  have h2: "distinct (map t_id (tasks sample_store))"
    by code_simp
  have e1: "tasks sample_store = [sample_task_done]"
    by code_simp
  have e2: "t_project sample_task_done = 1" "t_id sample_task_done = 2"
    by (simp_all add: sample_task_done_def sample_task_open_def)
  have e3: "get_task 11 2 sample_store = Success 200 sample_task_done"
    by code_simp
  have e4: "delete_project 10 1 sample_store =
     (Success 200 ''Project and all associated tasks deleted successfully'', empty_store)"
    by code_simp
  have o: "p_owner sample_project = 10"
    by (simp add: sample_project_def)
  from delete_project_cascades [OF h1 h2, of 11 11] o
  have r1: "delete_project 11 1 sample_store =
     (Failure 403 ''Only project owner can delete the project'', sample_store)"
    by simp
  from delete_project_cascades [OF h1 h2, of 10 11] o e1 e2
  have r2: "get_task 11 2 (snd (delete_project 10 1 sample_store)) = Failure 404 ''Task not found''"
    by simp
  from h1 e1 e2 e3 e4 r1 r2 show ?thesis
    by simp
qed

section \<open>Dashboard analytics\<close>

lemma group_count_total: "sum_list (map snd (group_count ks)) = length ks"
proof -
  have "sum_list (map snd (group_count ks)) = sum_list (map (count_list ks) (remdups ks))"
    by (simp add: group_count_def comp_def)
  also have "\<dots> = sum (count_list ks) (set ks)"
    by (simp add: sum_list_distinct_conv_sum_set)
  also have "\<dots> = length ks"
    by (simp add: sum_count_set)
  finally show ?thesis .
qed

lemma count_list_map: "count_list (map f xs) k = length (filter (\<lambda>x. f x = k) xs)"
  by (induction xs) auto

lemma group_count_entries:
  "list_all (\<lambda>(k, n). n = length (filter (\<lambda>x. f x = k) xs)) (group_count (map f xs))"
  by (simp add: group_count_def list_all_iff count_list_map)

lemma group_count_keys: "distinct (map fst (group_count ks))"
  by (simp add: group_count_def comp_def)

text \<open>The \<^verbatim>\<open>$match\<close> stage of the dashboard selects the tasks in scope.\<close>

lemma scoped_visible: "scoped (accessible_ids actor s) t = visible_task actor s t"
  by (fastforce simp add: scoped_def accessible_ids_def visible_task_def hasAccess_def
        list_ex_iff image_iff)

lemma filter_scoped:
  "filter (scoped (accessible_ids actor s)) ts = filter (visible_task actor s) ts"
proof -
  have "scoped (accessible_ids actor s) = visible_task actor s"
    by (rule ext) (rule scoped_visible)
  then show ?thesis
    by simp
qed

text \<open>
  C8. For every user and store, the counts of the dashboard's status distribution add up
  to the number of tasks in the user's scope, that is the tasks that are not archived and
  whose project the user owns or is a member of; \<^verbatim>\<open>totalTasks\<close> is that same number;
  and the distribution has one entry for each status, whose count is the number of tasks
  in scope with that status.
\<close>

theorem status_counts_sum_to_total:
  "sum_list (map snd (statusStats (get_dashboard now actor s))) =
     length (filter (visible_task actor s) (tasks s)) \<and>
   totalTasks (get_dashboard now actor s) =
     length (filter (visible_task actor s) (tasks s)) \<and>
   distinct (map fst (statusStats (get_dashboard now actor s))) \<and>
   list_all (\<lambda>(st, n). n = length (filter (\<lambda>t. t_status t = st)
                                      (filter (visible_task actor s) (tasks s))))
     (statusStats (get_dashboard now actor s))"
proof -
  let ?vis = "filter (visible_task actor s) (tasks s)"
  have st: "statusStats (get_dashboard now actor s) = group_count (map t_status ?vis)"
    by (simp add: get_dashboard_def Let_def filter_scoped)
  have tot: "totalTasks (get_dashboard now actor s) = length ?vis"
    by (simp add: get_dashboard_def Let_def filter_scoped)
  have a: "sum_list (map snd (group_count (map t_status ?vis))) = length ?vis"
    by (simp add: group_count_total)
  have b: "distinct (map fst (group_count (map t_status ?vis)))"
    by (rule group_count_keys)
  have c: "list_all (\<lambda>(st, n). n = length (filter (\<lambda>t. t_status t = st) ?vis))
             (group_count (map t_status ?vis))"
    by (rule group_count_entries)
  from a b c show ?thesis
    unfolding st tot by blast
qed

theorem status_counts_sum_to_total_witness:
  "length (tasks dashboard_store) = 4 \<and>
   map t_id (filter (visible_task 11 dashboard_store) (tasks dashboard_store)) = [2, 4] \<and>
   statusStats (get_dashboard 200 11 dashboard_store) = [(''todo'', 1), (''completed'', 1)] \<and>
   sum_list (map snd (statusStats (get_dashboard 200 11 dashboard_store))) = 2 \<and>
   totalTasks (get_dashboard 200 11 dashboard_store) = 2"
proof -
  have e1: "length (tasks dashboard_store) = 4"
    by code_simp
  have e2: "map t_id (filter (visible_task 11 dashboard_store) (tasks dashboard_store)) = [2, 4]"
    by code_simp
  have e3: "statusStats (get_dashboard 200 11 dashboard_store) =
              [(''todo'', 1), (''completed'', 1)]"
    by code_simp
  have n: "length (filter (visible_task 11 dashboard_store) (tasks dashboard_store)) = 2"
    using arg_cong [OF e2, of length] by simp
  from status_counts_sum_to_total [of 200 11 dashboard_store] n e1 e2 e3 show ?thesis
    by simp
qed

text \<open>
  C7, the failing input. In the sample store with task 2 archived, the dashboard of
  user 10 at time 200 counts no task (\<^verbatim>\<open>totalTasks\<close> 0, empty distributions), and
  lists the archived task 2 as recent activity: that query has no \<^verbatim>\<open>isArchived\<close>
  condition.
\<close>

theorem recent_activity_lists_archived:
  "map t_id (tasks archived_store) = [2] \<and>
   map t_isArchived (tasks archived_store) = [True] \<and>
   totalTasks (get_dashboard 200 10 archived_store) = 0 \<and>
   statusStats (get_dashboard 200 10 archived_store) = [] \<and>
   priorityStats (get_dashboard 200 10 archived_store) = [] \<and>
   overdueTasks (get_dashboard 200 10 archived_store) = 0 \<and>
   map t_id (recentActivity (get_dashboard 200 10 archived_store)) = [2] \<and>
   map t_isArchived (recentActivity (get_dashboard 200 10 archived_store)) = [True]"
  by code_simp

section \<open>Listing tasks\<close>

text \<open>
  C6, the failing input. User 10 owns projects 1 and 3, each with one task. The list
  request with \<^verbatim>\<open>project=1\<close> answers both tasks, the one of project 3 first: the
  assignment \<^verbatim>\<open>filter.project = { $in: projectIds }\<close> replaces the project the query
  asked for.
\<close>

theorem project_filter_overwritten:
  "f_project (build_filter (no_query\<lparr>q_project := Some 1\<rparr>) [1, 3]) = Some (ProjectIn [1, 3]) \<and>
   (case get_tasks (\<lambda>pat txt. False) 10 (no_query\<lparr>q_project := Some 1\<rparr>)
           (run two_project_requests empty_store) of
      Success c (ts, pg) \<Rightarrow>
        c = 200 \<and> map t_id ts = [4, 2] \<and> map t_project ts = [3, 1] \<and> pg_total pg = 2
    | ValidationErrors _ \<Rightarrow> False
    | Failure _ _ \<Rightarrow> False)"
  by code_simp

text \<open>What the list request does guarantee: every task it returns is stored, unarchived,
  in a project the caller owns or is a member of, and meets the status, priority,
  assignee and search conditions of the query.\<close>

lemma build_filter_fields:
  "f_isArchived (build_filter q ids) = False"
  "f_status (build_filter q ids) = truthy (q_status q)"
  "f_priority (build_filter q ids) = truthy (q_priority q)"
  "f_project (build_filter q ids) = Some (ProjectIn ids)"
  "f_assignee (build_filter q ids) = q_assignee q"
  "f_or (build_filter q ids) = truthy (q_search q)"
  by (simp_all add: build_filter_def Let_def split: option.splits)

lemma accessible_ids_access:
  "i \<in> set (accessible_ids actor s) = (\<exists>p\<in>set (projects s). p_id p = i \<and> hasAccess actor p)"
  by (auto simp add: accessible_ids_def)

lemma get_tasks_sound:
  assumes "get_tasks rx actor q s = Success c (ts, pg)" and "t \<in> set ts"
  shows "t \<in> set (tasks s) \<and> \<not> t_isArchived t \<and>
         (\<exists>p\<in>set (projects s). p_id p = t_project t \<and> hasAccess actor p) \<and>
         (\<forall>v. truthy (q_status q) = Some v \<longrightarrow> t_status t = v) \<and>
         (\<forall>v. truthy (q_priority q) = Some v \<longrightarrow> t_priority t = v) \<and>
         (\<forall>v. q_assignee q = Some v \<longrightarrow> t_assignee t = Some v) \<and>
         (\<forall>v. truthy (q_search q) = Some v \<longrightarrow> rx v (t_title t) \<or> rx v (t_description t))"
proof -
  let ?f = "build_filter q (accessible_ids actor s)"
  let ?found = "filter (matches rx ?f) (tasks s)"
  from assms(1) have
    "ts = take (int_or (q_limit q) 10)
            (drop ((int_or (q_page q) 1 - 1) * int_or (q_limit q) 10)
               (sort_key (\<lambda>t. - t_createdAt t) ?found))"
    by (simp add: get_tasks_def Let_def split: list.splits)
  with assms(2) have "t \<in> set (drop ((int_or (q_page q) 1 - 1) * int_or (q_limit q) 10)
                           (sort_key (\<lambda>t. - t_createdAt t) ?found))"
    by (blast dest: in_set_takeD)
  then have "t \<in> set (sort_key (\<lambda>t. - t_createdAt t) ?found)"
    by (rule in_set_dropD)
  then have "t \<in> set (tasks s)" and m: "matches rx ?f t"
    by simp_all
  from m have "\<not> t_isArchived t"
    and "t_project t \<in> set (accessible_ids actor s)"
    and "\<forall>v. truthy (q_status q) = Some v \<longrightarrow> t_status t = v"
    and "\<forall>v. truthy (q_priority q) = Some v \<longrightarrow> t_priority t = v"
    and "\<forall>v. q_assignee q = Some v \<longrightarrow> t_assignee t = Some v"
    and "\<forall>v. truthy (q_search q) = Some v \<longrightarrow> rx v (t_title t) \<or> rx v (t_description t)"
    by (auto simp add: matches_def build_filter_fields)
  with \<open>t \<in> set (tasks s)\<close> show ?thesis
    by (simp add: accessible_ids_access)
qed

section \<open>Rejected task updates\<close>

text \<open>An update that is not answered with success leaves the store as it was, and an
  update with a field that breaks a constraint of the request checks or of the schema is
  not answered with success.\<close>

lemma put_task_rejected_unchanged:
  assumes "\<forall>c t'. fst (put_task now actor tid b s) \<noteq> Success c t'"
  shows "snd (put_task now actor tid b s) = s"
  using assms
  by (auto simp add: put_task_def split: list.splits option.splits sum.splits if_splits)

lemma put_task_invalid_rejected:
  assumes "findById_task tid s = Some t"
    and "put_task_errors b \<noteq> [] \<or> validate_task (d_task (apply_update b (load t))) \<noteq> []"
  shows "(\<forall>c t'. fst (put_task now actor tid b s) \<noteq> Success c t') \<and>
         snd (put_task now actor tid b s) = s"
  using assms
  by (auto simp add: put_task_def save_task_def
        split: list.splits option.splits sum.splits if_splits)

text \<open>
  C9, the failing input. A member of the sample project sends an update of task 2 with
  progress 150. The request checks pass, the schema's range check on \<^verbatim>\<open>progress\<close> fails
  inside \<^verbatim>\<open>save()\<close>, and the answer is 500 \<^verbatim>\<open>Server error\<close>, with no list of fields.
  With an unknown status besides, the answer is 400 and lists \<^verbatim>\<open>status\<close> only. The store
  is unchanged in both cases.
\<close>

theorem range_violation_is_server_error:
  "put_task_errors (no_task_fields\<lparr>b_progress := Some 150\<rparr>) = [] \<and>
   validate_task (d_task (apply_update (no_task_fields\<lparr>b_progress := Some 150\<rparr>)
                            (load sample_task_done))) = [''progress''] \<and>
   put_task 140 11 2 (no_task_fields\<lparr>b_progress := Some 150\<rparr>) sample_store =
     (Failure 500 ''Server error'', sample_store) \<and>
   put_task 140 11 2 (no_task_fields\<lparr>b_status := Some ''done'', b_progress := Some 150\<rparr>)
       sample_store =
     (ValidationErrors [''status''], sample_store)"
  by code_simp

end
